theory Spec2Isabelle
  imports Main "HOL-Library.Word" "HOL-Library.Signed_Division"
begin

unbundle bit_operations_syntax

section \<open>The Launchpad Pro MK3 surface driver (lppro.cc)\<close>

text \<open>
  A shallow embedding of \<^verbatim>\<open>libs/surfaces/launchpad_pro/lppro.cc\<close>. Member
  functions of \<^verbatim>\<open>LaunchPadPro\<close> take the object's fields as an explicit state
  record and return the new state together with the list of effects they perform, in
  program order. Reads and writes outside a \<^verbatim>\<open>std::vector\<close> and calls of
  \<^verbatim>\<open>abort()\<close> are values of the type \<open>fault\<close>.

  C++ \<^verbatim>\<open>int\<close> is modelled by \<open>int\<close>: every index computed below is bounded by
  20 * 127 + 255, far from the 32-bit limits. \<^verbatim>\<open>MIDI::byte\<close> is \<open>8 word\<close>.
\<close>

subsection \<open>Bytes and the SysEx header\<close>

type_synonym byte = "8 word"

type_synonym MidiByteArray = "byte list"

definition sysex_header :: "MidiByteArray" where
  "sysex_header = [0xf0, 0x00, 0x20, 0x29, 0x2, 0xe]"

subsection \<open>Enumerations\<close>

datatype Layout =
    SessionLayout | Fader | ChordLayout | CustomLayout | NoteLayout | Scale
  | SequencerSettings | SequencerSteps | SequencerVelocity | SequencerPatternSettings
  | SequencerProbability | SequencerMutation | SequencerMicroStep | SequencerProjects
  | SequencerPatterns | SequencerTempo | SequencerSwing | ProgrammerLayout | Settings
  | CustomSettings

text \<open>The array \<^verbatim>\<open>LaunchPadPro::AllLayouts\<close> (lines 84-88).\<close>

definition AllLayouts :: "Layout list" where
  "AllLayouts =
     [SessionLayout, Fader, ChordLayout, CustomLayout, NoteLayout, Scale, SequencerSettings,
      SequencerSteps, SequencerVelocity, SequencerPatternSettings, SequencerProbability,
      SequencerMutation, SequencerMicroStep, SequencerProjects, SequencerPatterns,
      SequencerTempo, SequencerSwing, ProgrammerLayout, Settings, CustomSettings]"

text \<open>
  Modelled from the spec: the integer value of each \<^verbatim>\<open>Layout\<close> enumerator is
  declared in \<^verbatim>\<open>lppro.h\<close>, which is not among the sources. The specification
  calls the value the layout index and identifies it with the position in the layout
  enumeration (the byte sent by \<^verbatim>\<open>set_layout\<close> and the byte that
  \<^verbatim>\<open>handle_midi_sysex\<close> uses to index \<^verbatim>\<open>AllLayouts\<close>).
\<close>

fun layout_value :: "Layout \<Rightarrow> int" where
  "layout_value SessionLayout = 0"
| "layout_value Fader = 1"
| "layout_value ChordLayout = 2"
| "layout_value CustomLayout = 3"
| "layout_value NoteLayout = 4"
| "layout_value Scale = 5"
| "layout_value SequencerSettings = 6"
| "layout_value SequencerSteps = 7"
| "layout_value SequencerVelocity = 8"
| "layout_value SequencerPatternSettings = 9"
| "layout_value SequencerProbability = 10"
| "layout_value SequencerMutation = 11"
| "layout_value SequencerMicroStep = 12"
| "layout_value SequencerProjects = 13"
| "layout_value SequencerPatterns = 14"
| "layout_value SequencerTempo = 15"
| "layout_value SequencerSwing = 16"
| "layout_value ProgrammerLayout = 17"
| "layout_value Settings = 18"
| "layout_value CustomSettings = 19"

datatype ColorMode = Static | Flashing | Pulsing

subsection \<open>Faults and vectors\<close>

datatype fault = OutOfBounds | Aborted | AssertionFailed

text \<open>
  \<^verbatim>\<open>std::vector<int>::resize (n)\<close>: the first \<open>n\<close> elements are kept and new
  elements are value-initialised to 0.
\<close>

definition vec_resize :: "int list \<Rightarrow> nat \<Rightarrow> int list" where
  "vec_resize v n = take n v @ replicate (n - length v) 0"

text \<open>\<^verbatim>\<open>v[i]\<close> as a read and \<^verbatim>\<open>v[i] = x\<close> as a write; outside the vector both are undefined behaviour in C++, a fault here.\<close>

definition vec_at :: "'a list \<Rightarrow> int \<Rightarrow> fault + 'a" where
  "vec_at v i = (if 0 \<le> i \<and> i < int (length v) then Inr (v ! nat i) else Inl OutOfBounds)"

definition vec_store :: "'a list \<Rightarrow> int \<Rightarrow> 'a \<Rightarrow> fault + 'a list" where
  "vec_store v i x = (if 0 \<le> i \<and> i < int (length v) then Inr (v[nat i := x]) else Inl OutOfBounds)"

text \<open>A \<^verbatim>\<open>for\<close> loop over the listed index values; the first fault ends it.\<close>

fun for_each :: "'i list \<Rightarrow> ('i \<Rightarrow> 's \<Rightarrow> fault + 's) \<Rightarrow> 's \<Rightarrow> fault + 's" where
  "for_each [] body s = Inr s"
| "for_each (i # rest) body s =
     (case body i s of Inl e \<Rightarrow> Inl e | Inr s' \<Rightarrow> for_each rest body s')"

subsection \<open>Pads\<close>

text \<open>
  Modelled from the spec: \<^verbatim>\<open>struct Pad\<close> and its two constructors are declared in
  \<^verbatim>\<open>lppro.h\<close>, which is not among the sources. The specification gives the record
  as an id, an optional grid position (row, column), a colour and a colour mode; a new
  record is taken to be unlit (colour 0, static).
\<close>

record Pad =
  pad_id :: int
  grid_position :: "(int \<times> int) option"
  color :: int
  color_mode :: ColorMode

definition edge_Pad :: "int \<Rightarrow> Pad" where
  "edge_Pad pid = \<lparr>pad_id = pid, grid_position = None, color = 0, color_mode = Static\<rparr>"

definition grid_Pad :: "int \<Rightarrow> int \<Rightarrow> int \<Rightarrow> Pad" where
  "grid_Pad pid row col =
     \<lparr>pad_id = pid, grid_position = Some (row, col), color = 0, color_mode = Static\<rparr>"

subsection \<open>The object's state\<close>

text \<open>
  The fields of \<^verbatim>\<open>LaunchPadPro\<close> that the functions below read or write.
  \<^verbatim>\<open>pad_map\<close> is a \<^verbatim>\<open>std::map<int,Pad>\<close>, kept here as the list of its
  entries in insertion order (no function below depends on the order of iteration).
\<close>

record driver_state =
  current_layout :: Layout
  pad_map :: "(int \<times> Pad) list"
  layout_xy_note_map :: "int list"
  layout_note_xy_map :: "int list"

subsection \<open>Layout coordinate tables (lines 699-833)\<close>

text \<open>
  The static table \<^verbatim>\<open>maps\<close> of \<^verbatim>\<open>build_layout_maps\<close>. Only the Session
  grid is compiled: every other initialiser stands between \<^verbatim>\<open>#if 0\<close> and
  \<^verbatim>\<open>#endif\<close>. \<open>maps ! layout ! row ! col\<close> is \<^verbatim>\<open>maps[layout][row][col]\<close>.
\<close>

definition maps :: "int list list list" where
  "maps =
     [[[0x51, 0x52, 0x53, 0x54, 0x55, 0x56, 0x57, 0x58],
       [0x47, 0x48, 0x49, 0x4a, 0x4b, 0x4c, 0x4d, 0x4e],
       [0x3d, 0x3e, 0x3f, 0x40, 0x41, 0x42, 0x43, 0x44],
       [0x33, 0x34, 0x35, 0x36, 0x37, 0x38, 0x39, 0x3a],
       [0x29, 0x2a, 0x2b, 0x2c, 0x2d, 0x2e, 0x2f, 0x30],
       [0x1f, 0x20, 0x21, 0x22, 0x23, 0x24, 0x25, 0x26],
       [0x15, 0x16, 0x17, 0x18, 0x19, 0x1a, 0x1b, 0x1c],
       [0xb,  0xc,  0xe,  0xd,  0xf,  0x10, 0x11, 0x12]]]"

definition note_xy_index :: "int \<Rightarrow> int \<Rightarrow> int" where
  "note_xy_index layout note = (layout * 127) + note"

definition xy_note_index :: "int \<Rightarrow> int \<Rightarrow> int \<Rightarrow> int" where
  "xy_note_index layout col row = (layout * 64) + (row * 8) + col"

text \<open>
  The first loop nest of \<^verbatim>\<open>build_layout_maps\<close> (lines 794-801). The function
  also prints the number of layouts and one line per table entry on
  \<^verbatim>\<open>std::cerr\<close>; that output is left out of its model, which gives the tables.
\<close>

definition fill_xy_note_map :: "int list \<Rightarrow> fault + int list" where
  "fill_xy_note_map =
     for_each [0..<length maps] (\<lambda>layout.
       for_each [0..7] (\<lambda>row.
         for_each [0..7] (\<lambda>col v.
           vec_store v (xy_note_index (int layout) col row)
             (maps ! layout ! nat row ! nat col))))"

text \<open>The second loop nest (lines 805-813), reading the table the first one filled.\<close>

definition fill_note_xy_map :: "int list \<Rightarrow> int list \<Rightarrow> fault + int list" where
  "fill_note_xy_map xy =
     for_each [0..<length maps] (\<lambda>layout.
       for_each [0..7] (\<lambda>row.
         for_each [0..7] (\<lambda>col v.
           case vec_at xy (xy_note_index (int layout) col row) of
             Inl e \<Rightarrow> Inl e
           | Inr note \<Rightarrow> vec_store v (note_xy_index (int layout) note) (row * 8 + col))))"

definition build_layout_maps :: "driver_state \<Rightarrow> fault + driver_state" where
  "build_layout_maps st =
     (let num_layouts = length maps in
      case fill_xy_note_map (vec_resize (layout_xy_note_map st) (num_layouts * 64)) of
        Inl e \<Rightarrow> Inl e
      | Inr xy \<Rightarrow>
          (case fill_note_xy_map xy (vec_resize (layout_note_xy_map st) (128 * num_layouts)) of
             Inl e \<Rightarrow> Inl e
           | Inr nx \<Rightarrow> Inr (st\<lparr>layout_xy_note_map := xy, layout_note_xy_map := nx\<rparr>)))"

text \<open>
  \<^verbatim>\<open>note_to_xy\<close> (lines 828-833). \<^verbatim>\<open>%\<close> and \<^verbatim>\<open>/\<close> of C++ truncate
  towards zero: \<open>smod\<close> and \<open>sdiv\<close>. The result is a pair (x, y) = (column, row).
\<close>

definition note_to_xy :: "driver_state \<Rightarrow> int \<Rightarrow> fault + (int \<times> int)" where
  "note_to_xy st note =
     (case vec_at (layout_note_xy_map st) (note_xy_index (layout_value (current_layout st)) note) of
        Inl e \<Rightarrow> Inl e
      | Inr coord \<Rightarrow> Inr (coord smod 8, coord sdiv 8))"

text \<open>
  The forward lookup, as \<^verbatim>\<open>build_layout_maps\<close> performs it on line 808:
  \<^verbatim>\<open>layout_xy_note_map[xy_note_index (layout, col, row)]\<close>, for the current layout.
\<close>

definition xy_to_note :: "driver_state \<Rightarrow> int \<Rightarrow> int \<Rightarrow> fault + int" where
  "xy_to_note st col row =
     vec_at (layout_xy_note_map st) (xy_note_index (layout_value (current_layout st)) col row)"

subsection \<open>Effects\<close>

text \<open>
  What a member function does besides changing the fields: \<^verbatim>\<open>write\<close> (the
  surface's MIDI port), \<^verbatim>\<open>daw_write\<close> (the DAW port), \<^verbatim>\<open>g_usleep\<close> with its
  argument in microseconds, a line on \<^verbatim>\<open>std::cerr\<close>, and an invocation of the
  \<^verbatim>\<open>DEBUG_TRACE\<close> macro. Printed text is kept as its pieces (\<open>Endl\<close> is
  \<^verbatim>\<open>std::endl\<close>).
\<close>

datatype log_item = Str string | Num int | Hex int | Endl

datatype effect =
    Write MidiByteArray
  | DawWrite MidiByteArray
  | USleep nat
  | Cerr "log_item list"
  | DebugTrace "log_item list"

fun is_debug :: "effect \<Rightarrow> bool" where
  "is_debug (DebugTrace _) = True"
| "is_debug _ = False"

fun is_diagnostic :: "effect \<Rightarrow> bool" where
  "is_diagnostic (Cerr _) = True"
| "is_diagnostic (DebugTrace _) = True"
| "is_diagnostic _ = False"

subsection \<open>The pad map (lines 331-395)\<close>

datatype PadID =
    Shift | Left | Right | Session | Note | Chord | Custom | Sequencer | Projects
  | Patterns | Steps | PatternSettings | Velocity | Probability | Mutation | MicroStep
  | PrintToClip | StopClip | Device | Sends | Pan | Volume | Solo | Mute | RecordArm
  | CaptureMIDI | Play | FixedLength | Quantize | Duplicate | Clear | Down | Up
  | Lower1 | Lower2 | Lower3 | Lower4 | Lower5 | Lower6 | Lower7 | Lower8

text \<open>The arguments of the 41 \<^verbatim>\<open>EDGE_PAD\<close> statements, in program order.\<close>

definition edge_pads :: "PadID list" where
  "edge_pads =
     [Shift,
      Left, Right, Session, Note, Chord, Custom, Sequencer, Projects,
      Patterns, Steps, PatternSettings, Velocity, Probability, Mutation, MicroStep, PrintToClip,
      StopClip, Device, Sends, Pan, Volume, Solo, Mute, RecordArm,
      CaptureMIDI, Play, FixedLength, Quantize, Duplicate, Clear, Down, Up,
      Lower1, Lower2, Lower3, Lower4, Lower5, Lower6, Lower7, Lower8]"

text \<open>
  \<^verbatim>\<open>std::map::insert\<close>: the map is unchanged and the flag is false when the key is
  already present.
\<close>

definition map_insert :: "int \<times> Pad \<Rightarrow> (int \<times> Pad) list \<Rightarrow> (int \<times> Pad) list \<times> bool" where
  "map_insert p m = (if fst p \<in> set (map fst m) then (m, False) else (m @ [p], True))"

text \<open>
  The macro \<^verbatim>\<open>EDGE_PAD\<close>. The integer values of the \<^verbatim>\<open>PadID\<close> enumerators
  are declared in \<^verbatim>\<open>lppro.h\<close>, which is not among the sources: they are the
  parameter \<open>val\<close>.
\<close>

definition EDGE_PAD :: "(PadID \<Rightarrow> int) \<Rightarrow> PadID \<Rightarrow> (int \<times> Pad) list \<Rightarrow> fault + (int \<times> Pad) list" where
  "EDGE_PAD val p m =
     (case map_insert (val p, edge_Pad (val p)) m of
        (m', inserted) \<Rightarrow> if inserted then Inr m' else Inl Aborted)"

definition grid_pad :: "int \<Rightarrow> int \<Rightarrow> (int \<times> Pad) list \<Rightarrow> fault + (int \<times> Pad) list" where
  "grid_pad row col m =
     (let pid = (11 + (row * 10)) + col in
      case map_insert (pid, grid_Pad pid row col) m of
        (m', inserted) \<Rightarrow> if inserted then Inr m' else Inl Aborted)"

definition build_pad_map :: "(PadID \<Rightarrow> int) \<Rightarrow> driver_state \<Rightarrow> fault + driver_state" where
  "build_pad_map val st =
     (case for_each edge_pads (EDGE_PAD val) (pad_map st) of
        Inl e \<Rightarrow> Inl e
      | Inr m \<Rightarrow>
          (case for_each [0..7] (\<lambda>row. for_each [0..7] (\<lambda>col. grid_pad row col)) m of
             Inl e \<Rightarrow> Inl e
           | Inr m' \<Rightarrow>
               if length m' = 64 + (5 * 8) + 1 then Inr (st\<lparr>pad_map := m'\<rparr>)
               else Inl AssertionFailed))"

text \<open>The keys that \<^verbatim>\<open>build_pad_map\<close> tries to insert, in program order.\<close>

definition registered_ids :: "(PadID \<Rightarrow> int) \<Rightarrow> int list" where
  "registered_ids val =
     map val edge_pads @ concat (map (\<lambda>row. map (\<lambda>col. (11 + (row * 10)) + col) [0..7]) [0..7])"

text \<open>
  An example valuation of the enumerators, used to run \<^verbatim>\<open>build_pad_map\<close>: the
  control numbers that the programmer layout of the device gives its edge buttons.
\<close>

fun example_pad_value :: "PadID \<Rightarrow> int" where
  "example_pad_value Shift = 0x5a"
| "example_pad_value Left = 0x5b"
| "example_pad_value Right = 0x5c"
| "example_pad_value Session = 0x5d"
| "example_pad_value Note = 0x5e"
| "example_pad_value Chord = 0x5f"
| "example_pad_value Custom = 0x60"
| "example_pad_value Sequencer = 0x61"
| "example_pad_value Projects = 0x62"
| "example_pad_value Patterns = 0x59"
| "example_pad_value Steps = 0x4f"
| "example_pad_value PatternSettings = 0x45"
| "example_pad_value Velocity = 0x3b"
| "example_pad_value Probability = 0x31"
| "example_pad_value Mutation = 0x27"
| "example_pad_value MicroStep = 0x1d"
| "example_pad_value PrintToClip = 0x13"
| "example_pad_value StopClip = 0x8"
| "example_pad_value Device = 0x7"
| "example_pad_value Sends = 0x6"
| "example_pad_value Pan = 0x5"
| "example_pad_value Volume = 0x4"
| "example_pad_value Solo = 0x3"
| "example_pad_value Mute = 0x2"
| "example_pad_value RecordArm = 0x1"
| "example_pad_value CaptureMIDI = 0xa"
| "example_pad_value Play = 0x14"
| "example_pad_value FixedLength = 0x1e"
| "example_pad_value Quantize = 0x28"
| "example_pad_value Duplicate = 0x32"
| "example_pad_value Clear = 0x3c"
| "example_pad_value Down = 0x46"
| "example_pad_value Up = 0x50"
| "example_pad_value Lower1 = 0x65"
| "example_pad_value Lower2 = 0x66"
| "example_pad_value Lower3 = 0x67"
| "example_pad_value Lower4 = 0x68"
| "example_pad_value Lower5 = 0x69"
| "example_pad_value Lower6 = 0x6a"
| "example_pad_value Lower7 = 0x6b"
| "example_pad_value Lower8 = 0x6c"

subsection \<open>Writing to the pads (lines 429-460)\<close>

text \<open>
  \<^verbatim>\<open>all_pads_off\<close>: the loop pushes three bytes for each \<open>n\<close> from 1 to 31; the
  \<^verbatim>\<open>size_t\<close> counter is narrowed to a byte by \<^verbatim>\<open>push_back\<close>.
\<close>

definition all_pads_off :: "driver_state \<Rightarrow> driver_state \<times> effect list" where
  "all_pads_off st =
     (let msg = sysex_header @ [0x3];
          msg = foldl (\<lambda>msg n. msg @ [0x0, of_nat n, 13]) msg [1..<32];
          msg = msg @ [0xf7]
      in (st, [DawWrite msg]))"

definition all_pads_on :: "int \<Rightarrow> driver_state \<Rightarrow> driver_state \<times> effect list" where
  "all_pads_on c st = (st, [DawWrite (sysex_header @ [0xe, word_of_int c AND 0x7f, 0xf7])])"

subsection \<open>Device mode (lines 475-521)\<close>

datatype DeviceMode = Standalone | DAW | Programmer

definition set_device_mode :: "DeviceMode \<Rightarrow> driver_state \<Rightarrow> driver_state \<times> effect list" where
  "set_device_mode m st =
     (let standalone_or_daw = sysex_header; live_or_programmer = sysex_header in
      case m of
        Standalone \<Rightarrow>
          (st, [Cerr [Str ''entering standalone mode\<newline>''],
                Write (live_or_programmer @ [0xe, 0x0, 0xf7]),
                USleep 100000,
                Write (standalone_or_daw @ [0x10, 0x0, 0xf7])])
      | DAW \<Rightarrow>
          (st, [Write (standalone_or_daw @ [0x10, 0x1, 0xf7])])
      | Programmer \<Rightarrow>
          (st, [Cerr [Str ''entering programmer mode\<newline>''],
                Write (live_or_programmer @ [0xe, 0x1, 0xf7])]))"

subsection \<open>Inbound MIDI (lines 523-579)\<close>

text \<open>
  \<^verbatim>\<open>handle_midi_sysex\<close> returns nothing (it is \<^verbatim>\<open>void\<close>): the model gives
  the state it leaves and its effects. Its two early exits, taken when the message is
  too short to hold the byte about to be read, are bare \<^verbatim>\<open>return\<close> statements.
  The buffer \<^verbatim>\<open>raw_bytes\<close> of \<^verbatim>\<open>sz\<close> bytes is the list \<open>raw\<close>.
\<close>

definition handle_midi_sysex ::
  "byte list \<Rightarrow> driver_state \<Rightarrow> driver_state \<times> effect list" where
  "handle_midi_sysex raw st =
     (let sz = length raw;
          trace = DebugTrace [Str ''Sysex, '', Num (int sz), Str '' bytes\<newline>'']
      in
      if sz < length sysex_header + 1 then (st, [trace])
      else
        let num_layouts = length AllLayouts;
            raw_bytes = drop (length sysex_header) raw
        in
        if raw_bytes ! 0 = 0x0 then
          if sz < length sysex_header + 2 then (st, [trace])
          else if unat (raw_bytes ! 1) < num_layouts then
            (let l = AllLayouts ! unat (raw_bytes ! 1) in
             (st\<lparr>current_layout := l\<rparr>,
              [trace, Cerr [Str ''Current layout = '', Num (layout_value l), Endl]]))
          else
            (st,
             [trace, Cerr [Str ''ignore illegal layout index '', Num (uint (raw_bytes ! 1)), Endl]])
        else (st, [trace]))"

record EventTwoBytes =
  note_number :: byte
  velocity :: byte

definition handle_midi_note_off_message ::
  "EventTwoBytes \<Rightarrow> driver_state \<Rightarrow> driver_state \<times> effect list" where
  "handle_midi_note_off_message ev st =
     (st, [DebugTrace [Str ''Note Off '', Num (uint (note_number ev)),
                       Str '' (velocity '', Num (uint (velocity ev)), Str '')\<newline>'']])"

text \<open>
  \<^verbatim>\<open>handle_midi_note_on_message\<close>: the read of \<^verbatim>\<open>note_to_xy\<close> is a fault when
  it falls outside the table.
\<close>

definition handle_midi_note_on_message ::
  "EventTwoBytes \<Rightarrow> driver_state \<Rightarrow> fault + (driver_state \<times> effect list)" where
  "handle_midi_note_on_message ev st =
     (if velocity ev = 0 then Inr (handle_midi_note_off_message ev st)
      else
        let trace = DebugTrace [Str ''Note On '', Num (uint (note_number ev)), Str ''/0x'',
                                Hex (uint (note_number ev)), Str '' (velocity '',
                                Num (uint (velocity ev)), Str '')\<newline>'']
        in
        case note_to_xy st (uint (note_number ev)) of
          Inl e \<Rightarrow> Inl e
        | Inr coord \<Rightarrow>
            Inr (st, [trace, Cerr [Str ''x: '', Num (fst coord), Str '' y: '', Num (snd coord), Endl]]))"

subsection \<open>Scrolling text (lines 675-697)\<close>

text \<open>
  \<^verbatim>\<open>scroll_text\<close>. The text is a \<^verbatim>\<open>std::string\<close>; \<open>of_char\<close> gives the byte
  of a character. The second message is made by overwriting the first in place, two
  writes \<^verbatim>\<open>msg[i] = ...\<close> and a \<^verbatim>\<open>resize\<close>.

  \<^verbatim>\<open>speed\<close> is a \<^verbatim>\<open>float\<close>. Single-precision arithmetic is not modelled:
  the argument is given by what the function takes from it, whether it compares equal
  to \<^verbatim>\<open>0.f\<close> and, when it does not, the byte that
  \<^verbatim>\<open>(MIDI::byte) (floor (1.f + (speed * 6.f)))\<close> yields.
\<close>

datatype float_speed = SpeedZero | SpeedByte byte

definition byte_resize :: "MidiByteArray \<Rightarrow> nat \<Rightarrow> MidiByteArray" where
  "byte_resize v n = take n v @ replicate (n - length v) 0"

definition scroll_text ::
  "string \<Rightarrow> int \<Rightarrow> bool \<Rightarrow> float_speed \<Rightarrow> driver_state
     \<Rightarrow> fault + (driver_state \<times> effect list)" where
  "scroll_text txt c loop speed st =
     (let msg = sysex_header @ [0x32, word_of_int c, (if loop then 1 else 0)];
          msg = foldl (\<lambda>msg ch. msg @ [of_char ch AND 0xf7]) msg txt;
          msg = msg @ [0xf7]
      in
      case speed of
        SpeedByte b \<Rightarrow>
          (case vec_store msg (int (length sysex_header + 3)) b of
             Inl e \<Rightarrow> Inl e
           | Inr msg1 \<Rightarrow>
               (case vec_store msg1 (int (length sysex_header + 4)) 0xf7 of
                  Inl e \<Rightarrow> Inl e
                | Inr msg2 \<Rightarrow>
                    Inr (st, [DawWrite msg,
                              DawWrite (byte_resize msg2 (length sysex_header + 5))])))
      | SpeedZero \<Rightarrow> Inr (st, [DawWrite msg]))"

subsection \<open>Construction (lines 128-147)\<close>

text \<open>
  The fields as the member initialisers of the constructor leave them, before it calls
  \<^verbatim>\<open>build_pad_map\<close> and \<^verbatim>\<open>build_layout_maps\<close>: the current layout is
  \<^verbatim>\<open>SessionLayout\<close> and the containers are empty.
\<close>

definition initial_state :: driver_state where
  "initial_state =
     \<lparr>current_layout = SessionLayout, pad_map = [],
      layout_xy_note_map = [], layout_note_xy_map = []\<rparr>"

definition LaunchPadPro :: "(PadID \<Rightarrow> int) \<Rightarrow> fault + driver_state" where
  "LaunchPadPro val =
     (case build_pad_map val initial_state of
        Inl e \<Rightarrow> Inl e
      | Inr st \<Rightarrow> build_layout_maps st)"

subsection \<open>Notions used to state the properties\<close>

text \<open>
  A grid position is populated for the current layout when it lies in the 8x8 grid and
  \<^verbatim>\<open>layout_xy_note_map\<close> holds an entry for it.
\<close>

definition populated :: "driver_state \<Rightarrow> int \<Rightarrow> int \<Rightarrow> bool" where
  "populated st col row \<longleftrightarrow>
     0 \<le> col \<and> col \<le> 7 \<and> 0 \<le> row \<and> row \<le> 7 \<and>
     xy_note_index (layout_value (current_layout st)) col row
       < int (length (layout_xy_note_map st))"

text \<open>
  The contents of \<^verbatim>\<open>layout_note_xy_map\<close> after \<^verbatim>\<open>build_layout_maps\<close> has run
  on empty tables, as lemma \<open>build_layout_maps_result\<close> below computes them: entry
  \<open>note\<close> is \<open>row * 8 + col\<close> for the 64 notes of the Session grid and 0 elsewhere.
\<close>

definition session_note_xy :: "int list" where
  "session_note_xy =
     [0, 0, 0, 0, 0, 0, 0, 0, 0, 0, 0, 56, 57, 59, 58, 60, 61, 62, 63, 0,
      0, 48, 49, 50, 51, 52, 53, 54, 55, 0, 0, 40, 41, 42, 43, 44, 45, 46, 47, 0,
      0, 32, 33, 34, 35, 36, 37, 38, 39, 0, 0, 24, 25, 26, 27, 28, 29, 30, 31, 0,
      0, 16, 17, 18, 19, 20, 21, 22, 23, 0, 0, 8, 9, 10, 11, 12, 13, 14, 15, 0,
      0, 0, 1, 2, 3, 4, 5, 6, 7, 0, 0, 0, 0, 0, 0, 0, 0, 0, 0, 0,
      0, 0, 0, 0, 0, 0, 0, 0, 0, 0, 0, 0, 0, 0, 0, 0, 0, 0, 0, 0,
      0, 0, 0, 0, 0, 0, 0, 0]"

section \<open>Properties\<close>

subsection \<open>Index scheme\<close>

text \<open>
  C2. The forward index is \<open>layout * 64 + row * 8 + col\<close>, as stated. The inverse
  index is computed with the factor 127, not 128: for layout 1 and note 0 the code gives
  127, where \<open>layout * 128 + note\<close> is 128, and 127 is also the index of note 127 of
  layout 0. The table itself is sized with 128 entries per layout
  (\<^verbatim>\<open>resize (128 * num_layouts)\<close>).
\<close>

theorem index_scheme_stride:
  "xy_note_index layout col row = layout * 64 + row * 8 + col
   \<and> note_xy_index layout note = layout * 127 + note
   \<and> note_xy_index 1 0 = 127
   \<and> note_xy_index 1 0 \<noteq> 1 * 128 + 0
   \<and> note_xy_index 1 0 = note_xy_index 0 127"
  by (simp add: xy_note_index_def note_xy_index_def)

subsection \<open>The tables that are built\<close>

lemma vec_resize_Nil: "vec_resize [] n = replicate n 0"
  by (simp add: vec_resize_def)

lemma num_layouts: "length maps = 1"
  by (simp add: maps_def)

lemma length_session_xy: "length (concat (maps ! 0)) = 64"
  by (simp add: maps_def)

lemma built_xy_note_map: "fill_xy_note_map (replicate 64 0) = Inr (concat (maps ! 0))"
  by code_simp

lemma built_note_xy_map:
  "fill_note_xy_map (concat (maps ! 0)) (replicate 128 0) = Inr session_note_xy"
  by code_simp

lemma build_layout_maps_result:
  assumes "layout_xy_note_map st0 = []" and "layout_note_xy_map st0 = []"
  shows "build_layout_maps st0 =
           Inr (st0\<lparr>layout_xy_note_map := concat (maps ! 0),
                    layout_note_xy_map := session_note_xy\<rparr>)"
  using assms
  by (simp add: build_layout_maps_def num_layouts vec_resize_Nil built_xy_note_map
      built_note_xy_map)

lemma roundtrip_table:
  "list_all
     (\<lambda>k. vec_at session_note_xy (note_xy_index 0 (concat (maps ! 0) ! k)) = Inr (int k))
     [0..<64]"
  by code_simp

lemma roundtrip_entry:
  assumes "k < 64"
  shows "vec_at session_note_xy (note_xy_index 0 (concat (maps ! 0) ! k)) = Inr (int k)"
proof -
  from assms have "k \<in> set [0..<64]" by simp
  with roundtrip_table show ?thesis
    unfolding list_all_iff by blast
qed

lemma unpopulated_table:
  "list_all
     (\<lambda>n. n \<in> set (concat (maps ! 0)) \<or> vec_at session_note_xy (note_xy_index 0 n) = Inr 0)
     [0..127]"
  by code_simp

lemma layout_value_nonneg: "0 \<le> layout_value L"
  by (cases L) simp_all

lemma smod_nonneg: "0 \<le> a \<Longrightarrow> a smod 8 = a mod (8::int)"
  by (simp add: signed_modulo_int_def sgn_if)

lemma sdiv_nonneg: "0 \<le> a \<Longrightarrow> a sdiv 8 = a div (8::int)"
  by (simp add: signed_divide_int_def sgn_if)

text \<open>
  \<^verbatim>\<open>build_pad_map\<close> touches the pad map only, so the constructor runs
  \<^verbatim>\<open>build_layout_maps\<close> on empty tables: the theorems below, stated for such a
  run, hold of every object that was constructed.
\<close>

lemma build_pad_map_tables:
  assumes "build_pad_map val st = Inr st'"
  shows "layout_xy_note_map st' = layout_xy_note_map st"
    and "layout_note_xy_map st' = layout_note_xy_map st"
    and "current_layout st' = current_layout st"
  using assms by (auto simp add: build_pad_map_def split: sum.splits if_splits)

lemma constructed_tables:
  assumes "LaunchPadPro val = Inr st"
  shows "\<exists>st1. layout_xy_note_map st1 = [] \<and> layout_note_xy_map st1 = []
           \<and> build_layout_maps st1 = Inr st"
proof (cases "build_pad_map val initial_state")
  case (Inl e)
  with assms show ?thesis
    by (simp add: LaunchPadPro_def)
next
  case (Inr st1)
  with assms have "build_layout_maps st1 = Inr st"
    by (simp add: LaunchPadPro_def)
  moreover have "layout_xy_note_map st1 = []" "layout_note_xy_map st1 = []"
    using build_pad_map_tables [OF Inr] by (simp_all add: initial_state_def)
  ultimately show ?thesis by blast
qed

subsection \<open>Round trip\<close>

text \<open>
  C1. After \<^verbatim>\<open>build_layout_maps\<close> has run on the empty tables of a new object, for
  every layout \<open>L\<close> and every populated grid position, the note found in the forward
  table is mapped back to that position by \<^verbatim>\<open>note_to_xy\<close>; and in the Session
  layout note 0x33 is at column 0, row 3. (Only the Session grid is compiled into
  \<^verbatim>\<open>maps\<close>, so the populated positions are those of the Session layout.)
\<close>

theorem coordinate_roundtrip:
  assumes empty: "layout_xy_note_map st0 = []" "layout_note_xy_map st0 = []"
    and built: "build_layout_maps st0 = Inr st"
    and pop: "populated (st\<lparr>current_layout := L\<rparr>) col row"
  shows "(\<exists>note. xy_to_note (st\<lparr>current_layout := L\<rparr>) col row = Inr note
            \<and> note_to_xy (st\<lparr>current_layout := L\<rparr>) note = Inr (col, row))
         \<and> note_to_xy (st\<lparr>current_layout := SessionLayout\<rparr>) 0x33 = Inr (0, 3)"
proof -
  have st: "st = st0\<lparr>layout_xy_note_map := concat (maps ! 0),
                     layout_note_xy_map := session_note_xy\<rparr>"
    using build_layout_maps_result [OF empty] built by simp
  have range: "0 \<le> col" "col \<le> 7" "0 \<le> row" "row \<le> 7"
    using pop by (simp_all add: populated_def)
  have "layout_value L * 64 + row * 8 + col < 64"
    using pop by (simp add: populated_def xy_note_index_def st length_session_xy)
  with range layout_value_nonneg [of L] have lv: "layout_value L = 0"
    by arith
  define k where "k = nat (row * 8 + col)"
  have k: "k < 64" "int k = row * 8 + col"
    using range by (simp_all add: k_def)
  have fwd: "xy_to_note (st\<lparr>current_layout := L\<rparr>) col row = Inr (concat (maps ! 0) ! k)"
    using k range
    by (simp add: xy_to_note_def xy_note_index_def lv st vec_at_def length_session_xy k_def)
  have "int k smod 8 = col" "int k sdiv 8 = row"
    using range by (simp_all add: smod_nonneg sdiv_nonneg k)
  then have inv: "note_to_xy (st\<lparr>current_layout := L\<rparr>) (concat (maps ! 0) ! k) = Inr (col, row)"
    using roundtrip_entry [OF k(1)] by (simp add: note_to_xy_def lv st)
  have "note_to_xy (st\<lparr>current_layout := SessionLayout\<rparr>) 0x33 = Inr (0, 3)"
    by (simp add: note_to_xy_def st session_note_xy_def note_xy_index_def vec_at_def
        signed_modulo_int_def signed_divide_int_def)
  with fwd inv show ?thesis by blast
qed

theorem coordinate_roundtrip_witness:
  "\<exists>st. build_layout_maps initial_state = Inr st
     \<and> populated (st\<lparr>current_layout := SessionLayout\<rparr>) 3 7
     \<and> xy_to_note (st\<lparr>current_layout := SessionLayout\<rparr>) 3 7 = Inr 0xd
     \<and> note_to_xy (st\<lparr>current_layout := SessionLayout\<rparr>) 0xd = Inr (3, 7)"
proof -
  let ?built = "initial_state\<lparr>layout_xy_note_map := concat (maps ! 0),
                               layout_note_xy_map := session_note_xy\<rparr>"
  have e: "layout_xy_note_map initial_state = []" "layout_note_xy_map initial_state = []"
    by (simp_all add: initial_state_def)
  have b: "build_layout_maps initial_state = Inr ?built"
    using e by (rule build_layout_maps_result)
  have p: "populated (?built\<lparr>current_layout := SessionLayout\<rparr>) 3 7"
    by (simp add: populated_def xy_note_index_def length_session_xy)
  have f: "xy_to_note (?built\<lparr>current_layout := SessionLayout\<rparr>) 3 7 = Inr 0xd"
    by (simp add: xy_to_note_def xy_note_index_def vec_at_def maps_def)
  from coordinate_roundtrip [OF e b p] f b p show ?thesis
    by auto
qed

subsection \<open>Notes outside the grid\<close>

text \<open>
  C3 (as amended). \<^verbatim>\<open>note_to_xy\<close> returns a pair of integers and has no result
  that stands for "no coordinate". After \<^verbatim>\<open>build_layout_maps\<close> has run on the
  empty tables of a new object, for the Session layout and every note number from 0 to
  127 that is not a note of the Session grid, it returns (0, 0), the decoding of the
  zero that \<^verbatim>\<open>resize\<close> left in the table; (0, 0) is also what it returns for note
  0x51, the pad at column 0, row 0.
\<close>

theorem unpopulated_note_reads_origin:
  assumes empty: "layout_xy_note_map st0 = []" "layout_note_xy_map st0 = []"
    and built: "build_layout_maps st0 = Inr st"
    and unpop: "0 \<le> note" "note \<le> 127" "note \<notin> set (layout_xy_note_map st)"
  shows "note_to_xy (st\<lparr>current_layout := SessionLayout\<rparr>) note = Inr (0, 0)
         \<and> note_to_xy (st\<lparr>current_layout := SessionLayout\<rparr>) 0x51 = Inr (0, 0)"
proof -
  have st: "st = st0\<lparr>layout_xy_note_map := concat (maps ! 0),
                     layout_note_xy_map := session_note_xy\<rparr>"
    using build_layout_maps_result [OF empty] built by simp
  from unpop(1,2) have "note \<in> set [0..127]" by simp
  with unpopulated_table
  have "note \<in> set (concat (maps ! 0)) \<or> vec_at session_note_xy (note_xy_index 0 note) = Inr 0"
    unfolding list_all_iff by blast
  with unpop(3) have "vec_at session_note_xy (note_xy_index 0 note) = Inr 0"
    by (simp add: st)
  then have a: "note_to_xy (st\<lparr>current_layout := SessionLayout\<rparr>) note = Inr (0, 0)"
    by (simp add: note_to_xy_def st)
  have b: "note_to_xy (st\<lparr>current_layout := SessionLayout\<rparr>) 0x51 = Inr (0, 0)"
    by (simp add: note_to_xy_def st session_note_xy_def note_xy_index_def vec_at_def)
  from a b show ?thesis ..
qed

theorem unpopulated_note_reads_origin_witness:
  "\<exists>st. build_layout_maps initial_state = Inr st
     \<and> (0::int) \<notin> set (layout_xy_note_map st)
     \<and> note_to_xy (st\<lparr>current_layout := SessionLayout\<rparr>) 0 = Inr (0, 0)"
proof -
  let ?built = "initial_state\<lparr>layout_xy_note_map := concat (maps ! 0),
                               layout_note_xy_map := session_note_xy\<rparr>"
  have e: "layout_xy_note_map initial_state = []" "layout_note_xy_map initial_state = []"
    by (simp_all add: initial_state_def)
  have b: "build_layout_maps initial_state = Inr ?built"
    using e by (rule build_layout_maps_result)
  have n: "(0::int) \<notin> set (layout_xy_note_map ?built)"
    by (simp add: maps_def)
  from unpopulated_note_reads_origin [OF e b _ _ n] b n show ?thesis
    by auto
qed

text \<open>
  The claim as stated fails in the Session layout at note 0, which is not a note of the
  grid: the lookup returns the coordinate (0, 0).
\<close>

theorem unpopulated_note_counterexample:
  "case build_layout_maps initial_state of
     Inl e \<Rightarrow> False
   | Inr st \<Rightarrow> current_layout st = SessionLayout \<and> 0 \<notin> set (layout_xy_note_map st)
               \<and> note_to_xy st 0 = Inr (0, 0)"
proof -
  have e: "layout_xy_note_map initial_state = []" "layout_note_xy_map initial_state = []"
    by (simp_all add: initial_state_def)
  show ?thesis
    unfolding build_layout_maps_result [OF e]
    by (simp add: initial_state_def maps_def note_to_xy_def note_xy_index_def vec_at_def
        session_note_xy_def)
qed

subsection \<open>Entering standalone mode\<close>

text \<open>
  C4. \<^verbatim>\<open>set_device_mode (Standalone)\<close> writes the "live" message (header, 0x0E,
  0x00, 0xF7), then sleeps 100000 microseconds (100 ms), then writes the "DAW mode off"
  message (header, 0x10, 0x00, 0xF7); apart from a line on \<^verbatim>\<open>std::cerr\<close> it does
  nothing else, and it leaves the state as it was.
\<close>

theorem enter_standalone_sequence:
  "set_device_mode Standalone st =
     (st, [Cerr [Str ''entering standalone mode\<newline>''],
           Write (sysex_header @ [0x0E, 0x00, 0xF7]),
           USleep 100000,
           Write (sysex_header @ [0x10, 0x00, 0xF7])])
   \<and> filter (\<lambda>e. \<not> is_diagnostic e) (snd (set_device_mode Standalone st)) =
       [Write [0xF0, 0x00, 0x20, 0x29, 0x02, 0x0E, 0x0E, 0x00, 0xF7],
        USleep (100 * 1000),
        Write [0xF0, 0x00, 0x20, 0x29, 0x02, 0x0E, 0x10, 0x00, 0xF7]]"
  by (simp add: set_device_mode_def sysex_header_def)

subsection \<open>Layout-info responses\<close>

lemma length_sysex_header: "length sysex_header = 6"
  by (simp add: sysex_header_def)

lemma length_AllLayouts: "length AllLayouts = 20"
  by (simp add: AllLayouts_def)

text \<open>
  C5 (as amended). For an inbound message made of the header, the command byte 0x00 and
  an index byte (and whatever follows): when the index is below 20,
  \<^verbatim>\<open>_current_layout\<close> becomes the entry of \<^verbatim>\<open>AllLayouts\<close> at that index
  (index 2 is the third entry, \<^verbatim>\<open>ChordLayout\<close>) and the new value is printed on
  \<^verbatim>\<open>std::cerr\<close>; when it is 20 or more, a line is printed on \<^verbatim>\<open>std::cerr\<close>
  and the state is unchanged. In both cases the handler returns nothing and every
  effect is diagnostic output: no notification of the change is produced.
\<close>

theorem layout_info_response:
  assumes "raw = sysex_header @ [0x00, idx] @ rest"
  shows "(unat idx < 20 \<longrightarrow>
            handle_midi_sysex raw st =
              (st\<lparr>current_layout := AllLayouts ! unat idx\<rparr>,
               [DebugTrace [Str ''Sysex, '', Num (int (length raw)), Str '' bytes\<newline>''],
                Cerr [Str ''Current layout = '', Num (layout_value (AllLayouts ! unat idx)), Endl]]))
         \<and> (\<not> unat idx < 20 \<longrightarrow>
            handle_midi_sysex raw st =
              (st,
               [DebugTrace [Str ''Sysex, '', Num (int (length raw)), Str '' bytes\<newline>''],
                Cerr [Str ''ignore illegal layout index '', Num (uint idx), Endl]]))
         \<and> list_all is_diagnostic (snd (handle_midi_sysex raw st))
         \<and> AllLayouts ! 2 = ChordLayout"
proof -
  have d: "drop 6 raw = [0x00, idx] @ rest"
    using assms by (simp add: length_sysex_header)
  have l: "length raw = 8 + length rest"
    using assms by (simp add: length_sysex_header)
  show ?thesis
    by (simp add: handle_midi_sysex_def Let_def length_sysex_header length_AllLayouts d l)
      (simp add: AllLayouts_def)
qed

theorem layout_info_response_witness:
  "handle_midi_sysex (sysex_header @ [0x00, 0x02] @ [0xF7]) initial_state =
     (initial_state\<lparr>current_layout := ChordLayout\<rparr>,
      [DebugTrace [Str ''Sysex, '', Num 9, Str '' bytes\<newline>''],
       Cerr [Str ''Current layout = '', Num 2, Endl]])
   \<and> handle_midi_sysex (sysex_header @ [0x00, 0x19] @ [0xF7]) initial_state =
     (initial_state,
      [DebugTrace [Str ''Sysex, '', Num 9, Str '' bytes\<newline>''],
       Cerr [Str ''ignore illegal layout index '', Num 25, Endl]])"
  using layout_info_response [of "sysex_header @ [0x00, 0x02] @ [0xF7]" "0x02" "[0xF7]" initial_state]
    layout_info_response [of "sysex_header @ [0x00, 0x19] @ [0xF7]" "0x19" "[0xF7]" initial_state]
  by (simp add: AllLayouts_def length_sysex_header)

text \<open>
  The claim as stated fails at the message F0 00 20 29 02 0E 00 02 F7: the layout is
  set, and all that the handler produces besides is diagnostic output.
\<close>

theorem layout_info_counterexample:
  "handle_midi_sysex [0xF0, 0x00, 0x20, 0x29, 0x02, 0x0E, 0x00, 0x02, 0xF7] initial_state =
     (initial_state\<lparr>current_layout := ChordLayout\<rparr>,
      [DebugTrace [Str ''Sysex, '', Num 9, Str '' bytes\<newline>''],
       Cerr [Str ''Current layout = '', Num 2, Endl]])
   \<and> list_all is_diagnostic
        (snd (handle_midi_sysex [0xF0, 0x00, 0x20, 0x29, 0x02, 0x0E, 0x00, 0x02, 0xF7]
                initial_state))"
  by (simp add: handle_midi_sysex_def Let_def sysex_header_def AllLayouts_def)

subsection \<open>Scrolling text\<close>

lemma foldl_push_back: "foldl (\<lambda>msg x. msg @ [f x]) acc xs = acc @ map f xs"
  by (induction xs arbitrary: acc) simp_all

text \<open>
  C6. With speed 0 \<^verbatim>\<open>scroll_text\<close> writes one message: the header, 0x32, the
  colour byte, the loop flag, the text bytes and 0xF7. Each text byte is masked with
  0xF7, not with 0x7F: for the text "H" (0x48) the byte sent is 0x40, where the 7-bit
  mask leaves 0x48. (\<^verbatim>\<open>all_pads_on\<close> masks its colour with 0x7F.)
\<close>

theorem scroll_text_mask:
  "scroll_text txt c loop SpeedZero st =
     Inr (st, [DawWrite (sysex_header @ [0x32, word_of_int c, (if loop then 1 else 0)]
                          @ map (\<lambda>ch. of_char ch AND 0xF7) txt @ [0xF7])])
   \<and> scroll_text ''H'' 5 False SpeedZero st =
       Inr (st, [DawWrite [0xF0, 0x00, 0x20, 0x29, 0x02, 0x0E, 0x32, 5, 0, 0x40, 0xF7]])
   \<and> (of_char (CHR ''H'') :: byte) AND 0x7F = 0x48"
  by (simp add: scroll_text_def foldl_push_back) (simp add: sysex_header_def)

subsection \<open>The pad map\<close>

lemma for_each_append:
  "for_each (xs @ ys) body s =
     (case for_each xs body s of Inl e \<Rightarrow> Inl e | Inr s' \<Rightarrow> for_each ys body s')"
  by (induction xs arbitrary: s) (simp_all split: sum.splits)

text \<open>Two nested loops are one loop over the pairs of index values.\<close>

lemma for_each_nested:
  "for_each xs (\<lambda>x. for_each ys (body x)) s =
     for_each (concat (map (\<lambda>x. map (Pair x) ys) xs)) (\<lambda>(x, y). body x y) s"
proof (induction xs arbitrary: s)
  case Nil
  show ?case by simp
next
  case (Cons x xs)
  have inner: "for_each ys (body x) t = for_each (map (Pair x) ys) (\<lambda>(x, y). body x y) t" for t
    by (induction ys arbitrary: t) (simp_all split: sum.splits)
  show ?case
    by (simp add: for_each_append inner Cons.IH split: sum.splits)
qed

text \<open>
  A loop of insertions that abort on a failed insertion succeeds exactly when the keys
  are distinct and none is in the map already; it then appends one entry per key.
\<close>

lemma insert_loop:
  assumes body: "\<And>i m. body i m =
      (case map_insert (key i, mk i) m of
         (m', inserted) \<Rightarrow> if inserted then Inr m' else Inl Aborted)"
  shows "for_each is body m =
     (if distinct (map key is) \<and> set (map key is) \<inter> set (map fst m) = {}
      then Inr (m @ map (\<lambda>i. (key i, mk i)) is) else Inl Aborted)"
proof (induction "is" arbitrary: m)
  case Nil
  show ?case by simp
next
  case (Cons i rest)
  show ?case
  proof (cases "key i \<in> set (map fst m)")
    case True
    then show ?thesis
      by (simp add: body map_insert_def)
  next
    case False
    then have step: "body i m = Inr (m @ [(key i, mk i)])"
      by (simp add: body map_insert_def)
    show ?thesis
      using False by (auto simp add: step Cons.IH)
  qed
qed

lemma upto_0_7: "[0..7] = [0, 1, 2, 3, 4, 5, 6, 7::int]"
  by code_simp

lemma length_grid:
  "length (concat (map (\<lambda>row. map (\<lambda>col. (11 + (row * 10)) + col) [0..7]) [0..7::int])) = 64"
  by (simp add: upto_0_7)

lemma length_edge_pads: "length edge_pads = 41"
  by (simp add: edge_pads_def)

lemma length_registered_ids: "length (registered_ids val) = 105"
  by (simp only: registered_ids_def length_append length_map length_edge_pads length_grid)

lemma edge_loop:
  "for_each edge_pads (EDGE_PAD val) [] =
     (if distinct (map val edge_pads)
      then Inr (map (\<lambda>p. (val p, edge_Pad (val p))) edge_pads) else Inl Aborted)"
  using insert_loop [of "EDGE_PAD val" val "\<lambda>p. edge_Pad (val p)" edge_pads "[]"]
  by (simp add: EDGE_PAD_def)

lemma grid_loop:
  "for_each [0..7] (\<lambda>row. for_each [0..7] (\<lambda>col. grid_pad row col)) m =
     (if distinct (concat (map (\<lambda>row. map (\<lambda>col. (11 + (row * 10)) + col) [0..7]) [0..7]))
         \<and> set (concat (map (\<lambda>row. map (\<lambda>col. (11 + (row * 10)) + col) [0..7]) [0..7]))
             \<inter> set (map fst m) = {}
      then Inr (m @ map (\<lambda>(row, col).
                          ((11 + (row * 10)) + col, grid_Pad ((11 + (row * 10)) + col) row col))
                      (concat (map (\<lambda>row. map (Pair row) [0..7]) [0..7])))
      else Inl Aborted)"
proof -
  let ?key = "\<lambda>(row, col). (11 + (row * 10)) + (col::int)"
  let ?mk = "\<lambda>(row, col). grid_Pad ((11 + (row * 10)) + col) row col"
  let ?pairs = "concat (map (\<lambda>row. map (Pair row) [0..7]) [0..7::int])"
  have keys: "map ?key ?pairs =
                concat (map (\<lambda>row. map (\<lambda>col. (11 + (row * 10)) + col) [0..7]) [0..7])"
    by (simp add: map_concat comp_def)
  have "for_each ?pairs (\<lambda>(row, col). grid_pad row col) m =
     (if distinct (map ?key ?pairs) \<and> set (map ?key ?pairs) \<inter> set (map fst m) = {}
      then Inr (m @ map (\<lambda>i. (?key i, ?mk i)) ?pairs) else Inl Aborted)"
    by (rule insert_loop) (simp add: grid_pad_def split: prod.splits)
  then show ?thesis
    unfolding for_each_nested keys
    by (simp add: case_prod_unfold)
qed

text \<open>
  C7. \<^verbatim>\<open>build_pad_map\<close>, run on the empty map of a new object, for any values of
  the \<^verbatim>\<open>PadID\<close> enumerators: when the 105 keys it inserts (41 edge pads, shift
  included, and the 64 grid pads) are distinct it completes, the map then holds exactly
  105 entries, one per key, and the final assertion holds; when two of them coincide
  it calls \<^verbatim>\<open>abort()\<close>.
\<close>

theorem pad_map_cardinality:
  assumes "pad_map st = []"
  shows "(distinct (registered_ids val) \<longrightarrow>
            (\<exists>st'. build_pad_map val st = Inr st' \<and> length (pad_map st') = 105
               \<and> map fst (pad_map st') = registered_ids val
               \<and> distinct (map fst (pad_map st'))))
         \<and> (\<not> distinct (registered_ids val) \<longrightarrow> build_pad_map val st = Inl Aborted)"
proof -
  let ?grid = "concat (map (\<lambda>row. map (\<lambda>col. (11 + (row * 10)) + col) [0..7]) [0..7::int])"
  let ?edges = "map (\<lambda>p. (val p, edge_Pad (val p))) edge_pads"
  let ?cells = "map (\<lambda>(row, col).
                      ((11 + (row * 10)) + col, grid_Pad ((11 + (row * 10)) + col) row col))
                  (concat (map (\<lambda>row. map (Pair row) [0..7]) [0..7]))"
  have keys: "map fst ?edges = map val edge_pads"
    by (simp add: comp_def)
  have d: "distinct (registered_ids val) \<longleftrightarrow>
             distinct (map val edge_pads) \<and> distinct ?grid
             \<and> set ?grid \<inter> set (map val edge_pads) = {}"
    unfolding registered_ids_def distinct_append by blast
  show ?thesis
  proof (cases "distinct (registered_ids val)")
    case True
    with d have e: "for_each edge_pads (EDGE_PAD val) [] = Inr ?edges"
      by (simp add: edge_loop)
    from True d have "distinct ?grid \<and> set ?grid \<inter> set (map fst ?edges) = {}"
      unfolding keys by blast
    then have g: "for_each [0..7] (\<lambda>row. for_each [0..7] (\<lambda>col. grid_pad row col)) ?edges =
        Inr (?edges @ ?cells)"
      unfolding grid_loop by (rule if_P)
    have fstmap: "map fst (?edges @ ?cells) = registered_ids val"
      by (simp add: registered_ids_def map_concat comp_def case_prod_unfold)
    have len: "length (?edges @ ?cells) = 105"
      using arg_cong [OF fstmap, of length] by (simp only: length_map length_registered_ids)
    show ?thesis
      using True assms fstmap len
      by (simp add: build_pad_map_def e g del: map_append length_append)
  next
    case False
    show ?thesis
    proof (cases "distinct (map val edge_pads)")
      case False
      then show ?thesis
        using assms d by (simp add: build_pad_map_def edge_loop)
    next
      case True
      with False d have "\<not> (distinct ?grid \<and> set ?grid \<inter> set (map fst ?edges) = {})"
        unfolding keys by blast
      then have "for_each [0..7] (\<lambda>row. for_each [0..7] (\<lambda>col. grid_pad row col)) ?edges =
          Inl Aborted"
        unfolding grid_loop by (rule if_not_P)
      then show ?thesis
        using assms False True by (simp add: build_pad_map_def edge_loop)
    qed
  qed
qed

theorem pad_map_cardinality_witness:
  "distinct (registered_ids example_pad_value)
   \<and> (\<exists>st'. build_pad_map example_pad_value initial_state = Inr st'
          \<and> length (pad_map st') = 105
          \<and> map fst (pad_map st') = registered_ids example_pad_value
          \<and> distinct (map fst (pad_map st')))
   \<and> \<not> distinct (registered_ids (\<lambda>p. 11))
   \<and> build_pad_map (\<lambda>p. 11) initial_state = Inl Aborted"
proof -
  have e: "pad_map initial_state = []"
    by (simp add: initial_state_def)
  have d1: "distinct (registered_ids example_pad_value)"
    by code_simp
  have d2: "\<not> distinct (registered_ids (\<lambda>p. 11))"
    by code_simp
  from pad_map_cardinality [OF e, of example_pad_value]
    pad_map_cardinality [OF e, of "\<lambda>p. 11"] d1 d2
  show ?thesis by blast
qed

subsection \<open>Note-on with velocity zero\<close>

text \<open>
  C8. For every note and every state (so every current layout), a note-on with velocity
  0 is handled by the note-off handler and by nothing else: the result is that of the
  note-off handler on the same event. The note-off handler changes no state and its
  only effect is the debug trace, which prints the velocity: for any velocity it leaves
  the same state and the same effects other than that trace.
\<close>

theorem note_on_velocity_zero:
  "handle_midi_note_on_message \<lparr>note_number = n, velocity = 0\<rparr> st =
     Inr (handle_midi_note_off_message \<lparr>note_number = n, velocity = 0\<rparr> st)
   \<and> fst (handle_midi_note_off_message \<lparr>note_number = n, velocity = v\<rparr> st) =
       fst (handle_midi_note_off_message \<lparr>note_number = n, velocity = 0\<rparr> st)
   \<and> filter (\<lambda>e. \<not> is_debug e)
        (snd (handle_midi_note_off_message \<lparr>note_number = n, velocity = v\<rparr> st)) =
       filter (\<lambda>e. \<not> is_debug e)
        (snd (handle_midi_note_off_message \<lparr>note_number = n, velocity = 0\<rparr> st))"
  by (simp add: handle_midi_note_on_message_def handle_midi_note_off_message_def)

subsection \<open>Truncated SysEx\<close>

text \<open>
  C9 (as amended). An inbound SysEx message shorter than the header plus one command
  byte is dropped by the first length check, a bare \<^verbatim>\<open>return\<close>: the state
  (current layout, pad map, tables) is unchanged and the only effect is the debug
  trace of the size. The handler is \<^verbatim>\<open>void\<close>, so no error is reported.
\<close>

theorem sysex_truncated:
  assumes "length raw < length sysex_header + 1"
  shows "handle_midi_sysex raw st =
           (st, [DebugTrace [Str ''Sysex, '', Num (int (length raw)), Str '' bytes\<newline>'']])
         \<and> list_all is_debug (snd (handle_midi_sysex raw st))"
  using assms by (simp add: handle_midi_sysex_def Let_def)

theorem sysex_truncated_witness:
  "length [0xF0, 0x00, 0x20, 0x29, 0x02 :: byte] < length sysex_header + 1
   \<and> handle_midi_sysex [0xF0, 0x00, 0x20, 0x29, 0x02] initial_state =
       (initial_state, [DebugTrace [Str ''Sysex, '', Num 5, Str '' bytes\<newline>'']])"
proof -
  have h: "length [0xF0, 0x00, 0x20, 0x29, 0x02 :: byte] < length sysex_header + 1"
    by (simp add: sysex_header_def)
  from sysex_truncated [OF h, of initial_state] h show ?thesis
    by simp
qed

text \<open>
  The claim as stated fails at the 5-byte message F0 00 20 29 02: all that the call
  yields is the unchanged state and the debug trace of the size. Nothing tells it from
  the call on the complete message F0 00 20 29 02 0E 7F F7, whose command byte 0x7F the
  handler does not know and ignores: the state and the effects other than the trace
  (there are none) are the same.
\<close>

theorem sysex_truncated_counterexample:
  "handle_midi_sysex [0xF0, 0x00, 0x20, 0x29, 0x02] initial_state =
     (initial_state, [DebugTrace [Str ''Sysex, '', Num 5, Str '' bytes\<newline>'']])
   \<and> handle_midi_sysex [0xF0, 0x00, 0x20, 0x29, 0x02, 0x0E, 0x7F, 0xF7] initial_state =
     (initial_state, [DebugTrace [Str ''Sysex, '', Num 8, Str '' bytes\<newline>'']])
   \<and> filter (\<lambda>e. \<not> is_debug e)
        (snd (handle_midi_sysex [0xF0, 0x00, 0x20, 0x29, 0x02] initial_state)) = []"
  by (simp add: handle_midi_sysex_def Let_def sysex_header_def)

subsection \<open>Switching all pads off\<close>

lemma foldl_append_concat: "foldl (\<lambda>acc x. acc @ f x) acc xs = acc @ concat (map f xs)"
  by (induction xs arbitrary: acc) simp_all

text \<open>
  C10. \<^verbatim>\<open>all_pads_off\<close> writes one message to the DAW port: the header, 0x03, the
  three bytes (0x00, n, 13) for each \<open>n\<close> from 1 to 31, and 0xF7. The message is the
  same whatever the state, and the state, the pad records included, is left as it was.
\<close>

theorem all_pads_off_fixed:
  "all_pads_off st =
     (st, [DawWrite (sysex_header @ [0x03]
                      @ concat (map (\<lambda>n. [0x00, of_nat n, 13]) [1..<32]) @ [0xF7])])
   \<and> snd (all_pads_off st) = snd (all_pads_off st')
   \<and> pad_map (fst (all_pads_off st)) = pad_map st"
  by (simp add: all_pads_off_def foldl_append_concat)

end
